theory Spec2Isabelle
  imports Complex_Main "HOL-Library.Monad_Syntax" "HOL-Library.Sublist"
begin

section \<open>Numbers, dates and the clock\<close>

text \<open>
  The engine of \<^verbatim>\<open>unmessify\<close> (the functions \<^verbatim>\<open>computeDerivedData\<close>,
  \<^verbatim>\<open>calculateBurnRateWindow\<close>, \<^verbatim>\<open>calculateDailySafeLimit\<close>,
  \<^verbatim>\<open>predictExhaustionDate\<close>, \<^verbatim>\<open>determineRiskLevel\<close>,
  \<^verbatim>\<open>determineConfidenceLevel\<close>, the table \<^verbatim>\<open>adviceRules\<close> and
  \<^verbatim>\<open>generateAdvice\<close>) is embedded function by function.

  \<^item> A JavaScript number is a \<^typ>\<open>real\<close>: arithmetic is exact, rounding error and
    overflow of IEEE doubles are outside the model. A division whose divisor is zero
    gives a non-finite number (Infinity or NaN) in JavaScript, which the program would
    carry along; the model has no such value, so \<open>jsdiv\<close> returns \<open>None\<close> there,
    every function that divides returns an \<open>option\<close>, and the first \<open>None\<close> ends the
    computation. \<open>None\<close> reads "a non-finite number was produced"; a result
    \<open>Some x\<close> says that no division by zero was executed on the way.
  \<^item> A \<^verbatim>\<open>Date\<close> is its time value, the milliseconds since the epoch, an
    \<^typ>\<open>int\<close>. The strings \<^verbatim>\<open>'YYYY-MM-DD'\<close> that \<^verbatim>\<open>formatDate\<close> writes, that
    the date inputs of the forms deliver and that \<^verbatim>\<open>new Date(string)\<close> reads are
    calendar days, modelled by their day number since 1970-01-01.
    \<^verbatim>\<open>new Date('YYYY-MM-DD')\<close> is midnight UTC of that day (\<open>parseDate\<close>).
  \<^item> \<^verbatim>\<open>new Date()\<close> reads the ambient clock. The model passes it in: a
    \<open>clock\<close> holds the instant \<open>now\<close> and the offset \<open>tzOffset\<close> of local time
    from UTC in milliseconds (fixed during a call; daylight-saving changes are
    outside the model). The local-time getters \<^verbatim>\<open>getFullYear/getMonth/getDate\<close>
    behind \<^verbatim>\<open>formatDate\<close>, \<^verbatim>\<open>getDay\<close> and \<^verbatim>\<open>setDate\<close> work on the local
    calendar day. One call of the engine sees one value of \<open>now\<close>.
\<close>

type_synonym Date = int

type_synonym dateString = int

record clock =
  now :: Date
  tzOffset :: int

definition msPerDay :: int where
  "msPerDay = 1000 * 60 * 60 * 24"

definition parseDate :: "dateString \<Rightarrow> Date" where
  "parseDate s = s * msPerDay"

definition formatDate :: "int \<Rightarrow> Date \<Rightarrow> dateString" where
  "formatDate tz d = (d + tz) div msPerDay"

text \<open>\<^verbatim>\<open>d.setDate(d.getDate() + k)\<close>: the same local wall-clock time, \<open>k\<close> days on.\<close>

definition addDays :: "Date \<Rightarrow> int \<Rightarrow> Date" where
  "addDays d k = d + k * msPerDay"

text \<open>\<^verbatim>\<open>getDay()\<close>: 0 is Sunday; 1970-01-01 was a Thursday.\<close>

definition getDay :: "int \<Rightarrow> Date \<Rightarrow> int" where
  "getDay tz d = (formatDate tz d + 4) mod 7"

definition jsdiv :: "real \<Rightarrow> real \<Rightarrow> real option" where
  "jsdiv a b = (if b = 0 then None else Some (a / b))"

text \<open>\<^verbatim>\<open>Math.round\<close> rounds to the nearest integer, a tie towards \<open>+\<infinity>\<close>.\<close>

definition Math_round :: "real \<Rightarrow> int" where
  "Math_round x = \<lfloor>x + 1 / 2\<rfloor>"

section \<open>Expense records\<close>

record expense =
  expense_id :: string
  date :: dateString
  mealType :: string
  itemType :: string
  quantity :: int
  cost :: real
  notes' :: "string option"

section \<open>Window aggregator\<close>

text \<open>
  \<^verbatim>\<open>calculateBurnRateWindow(expenses, windowDays, startDate)\<close>. \<^verbatim>\<open>today\<close> and
  \<^verbatim>\<open>windowStart\<close> are instants that keep the time of day of \<open>now\<close>; \<^verbatim>\<open>expDate\<close>
  and \<^verbatim>\<open>startDate\<close> are midnights UTC. \<^verbatim>\<open>reduce\<close> folds from the left, from 0.
\<close>

definition calculateBurnRateWindow ::
  "clock \<Rightarrow> expense list \<Rightarrow> int \<Rightarrow> Date \<Rightarrow> real option" where
  "calculateBurnRateWindow clk expenses windowDays startDate =
     (let today = now clk;
          windowStart = addDays today (- windowDays + 1);
          effectiveStart = (if windowStart > startDate then windowStart else startDate);
          windowExpenses =
            filter (\<lambda>exp. let expDate = parseDate (date exp)
                         in expDate \<ge> effectiveStart \<and> expDate \<le> today) expenses;
          windowTotal = foldl (\<lambda>sum exp. sum + cost exp) 0 windowExpenses;
          actualWindowDays = max 1 ((today - effectiveStart) div msPerDay + 1)
      in jsdiv windowTotal (of_int actualWindowDays))"

section \<open>Exhaustion predictor\<close>

text \<open>
  \<^verbatim>\<open>daysUntilExhaustion\<close> is a whole number of days or \<^verbatim>\<open>Infinity\<close>;
  \<^verbatim>\<open>predictedExhaustionDate\<close> is a date string or \<^verbatim>\<open>null\<close>. The function returns
  the pair \<^verbatim>\<open>{predictedExhaustionDate, daysUntilExhaustion}\<close>. Its parameter
  \<^verbatim>\<open>endDate\<close> is never read.
\<close>

datatype daysCount = Finite int | Infinity


section \<open>Risk and confidence classifiers\<close>

datatype riskLevel = Safe | Watch | Danger

text \<open>The strings \<^verbatim>\<open>'low'\<close>, \<^verbatim>\<open>'medium'\<close>, \<^verbatim>\<open>'high'\<close> of a confidence level and of
  an advice severity.\<close>

datatype level = Low | Medium | High

record thresholds =
  warning :: real
  danger :: real



section \<open>Safe-limit calculator\<close>

text \<open>
  \<^verbatim>\<open>toleranceFactors[profile.preferences.riskTolerance] || 1.0\<close> reads a property of
  an object literal. The literal has three own properties; like every object literal
  it inherits the properties of \<^verbatim>\<open>Object.prototype\<close>, whose names are listed in
  \<open>objectPrototypeKeys\<close> (the standard ones and the legacy accessors of browsers).
  A key that is neither own nor inherited reads \<^verbatim>\<open>undefined\<close>. The key is the
  value of \<^verbatim>\<open>riskTolerance\<close> as a property key: an absent \<^verbatim>\<open>riskTolerance\<close> is the
  key \<^verbatim>\<open>'undefined'\<close>, \<^verbatim>\<open>null\<close> the key \<^verbatim>\<open>'null'\<close>.
\<close>

datatype 'a property = Own 'a | Inherited | Undefined

definition objectPrototypeKeys :: "string list" where
  "objectPrototypeKeys =
     [''constructor'', ''__proto__'', ''hasOwnProperty'', ''isPrototypeOf'',
      ''propertyIsEnumerable'', ''toLocaleString'', ''toString'', ''valueOf'',
      ''__defineGetter__'', ''__defineSetter__'', ''__lookupGetter__'',
      ''__lookupSetter__'']"

definition getProperty :: "(string \<times> 'a) list \<Rightarrow> string \<Rightarrow> 'a property" where
  "getProperty obj key =
     (case map_of obj key of
        Some v \<Rightarrow> Own v
      | None \<Rightarrow> if key \<in> set objectPrototypeKeys then Inherited else Undefined)"

definition toleranceFactors :: "(string \<times> real) list" where
  "toleranceFactors = [(''low'', 0.85), (''medium'', 1.0), (''high'', 1.1)]"

record preferences =
  riskTolerance :: string
  weekendBoost :: bool
  examMode :: bool
  maxSpendPerDay :: "real option"
  vegetarian :: bool
  notificationThresholds :: thresholds

text \<open>The preferences of \<^verbatim>\<open>createDefaultProfile\<close>.\<close>

definition defaultPreferences :: preferences where
  "defaultPreferences =
     \<lparr>riskTolerance = ''medium'', weekendBoost = False, examMode = False,
      maxSpendPerDay = None, vegetarian = False,
      notificationThresholds = \<lparr>warning = 0.7, danger = 0.9\<rparr>\<rparr>"

text \<open>
  \<^verbatim>\<open>calculateDailySafeLimit(profile, expenses, derivedBase)\<close>, with the four fields
  that the function takes from \<^verbatim>\<open>derivedBase\<close> as its last four arguments.
  \<^verbatim>\<open>Math.pow(x, 0.5)\<close> is the square root. An own factor is a non-zero number and
  is taken; \<^verbatim>\<open>undefined\<close> is falsy, so the factor is 1.0; an inherited property is a
  function or an object, which is truthy, so it becomes the factor and
  \<^verbatim>\<open>base * factor\<close> is NaN, which the later steps (\<^verbatim>\<open>*\<close>, \<^verbatim>\<open>Math.min\<close>,
  \<^verbatim>\<open>Math.round\<close>, \<^verbatim>\<open>Math.max\<close>) hand on: the function returns NaN, here \<open>None\<close>.
\<close>

record profile =
  userType :: string
  monthlyCredits :: real
  monthDays :: int
  startDate :: dateString
  preferences :: preferences

definition calculateDailySafeLimit ::
  "clock \<Rightarrow> profile \<Rightarrow> expense list \<Rightarrow> real \<Rightarrow> int \<Rightarrow> real \<Rightarrow> real \<Rightarrow> real option" where
  "calculateDailySafeLimit clk profile expenses remainingCredits remainingDays
       averageDailySpend targetBurnRate =
     (if remainingDays \<le> 0 then Some 0
      else do {
        base \<leftarrow> jsdiv remainingCredits (of_int remainingDays);
        base \<leftarrow>
          (if averageDailySpend > 0 \<and> targetBurnRate > 0 \<and> averageDailySpend > targetBurnRate
           then do {
             overshootRatio \<leftarrow> jsdiv averageDailySpend targetBurnRate;
             jsdiv base (sqrt overshootRatio)
           }
           else Some base);
        factor \<leftarrow>
          (case getProperty toleranceFactors (riskTolerance (preferences profile)) of
             Own v \<Rightarrow> Some (if v \<noteq> 0 then v else 1.0)
           | Inherited \<Rightarrow> None
           | Undefined \<Rightarrow> Some 1.0);
        let base = base * factor;
        let today = now clk;
        let isWeekend =
          (getDay (tzOffset clk) today = 0 \<or> getDay (tzOffset clk) today = 6);
        let base =
          (if weekendBoost (preferences profile) \<and> isWeekend then base * 1.15 else base);
        let base = (if examMode (preferences profile) then base * 1.05 else base);
        let base =
          (case maxSpendPerDay (preferences profile) of
             Some cap \<Rightarrow> if cap \<noteq> 0 \<and> cap > 0 then min base cap else base
           | None \<Rightarrow> base);
        Some (of_int (max 0 (Math_round base)))
      })"

section \<open>Metrics engine\<close>

record DerivedMetrics =
  today :: dateString
  daysElapsed :: int
  remainingDays :: int
  totalSpent :: real
  remainingCredits :: real
  todaySpend :: real
  dailySafeLimit :: real
  averageDailySpend :: real
  burnRate7d :: real
  burnRate3d :: real
  burnRateOverall :: real
  targetBurnRate :: real
  predictedExhaustionDate :: "dateString option"
  daysUntilExhaustion :: daysCount
  riskLevel :: riskLevel
  surplusOrDeficit :: real
  creditsUsedRatio :: real
  timeElapsedRatio :: real
  confidenceLevel :: level
  endDate :: dateString


section \<open>Advisory engine\<close>

text \<open>
  An advice item is \<^verbatim>\<open>{id, title, message, severity, category}\<close>. \<^verbatim>\<open>title\<close> is a
  constant text and \<^verbatim>\<open>message\<close> a text built from the inputs by template strings,
  which cannot fail and which nothing in the engine reads; both are left out of the
  model. A rule's \<^verbatim>\<open>when\<close> is its predicate over
  \<^verbatim>\<open>(profile, derived, expenses)\<close>; the rule \<^verbatim>\<open>weekend_boost_suggestion\<close> reads the
  clock as well, so every predicate takes it.
\<close>

record AdviceItem =
  item_id :: string
  severity :: level
  category :: string

record adviceRule =
  rule_id :: string
  rule_when :: "clock \<Rightarrow> profile \<Rightarrow> DerivedMetrics \<Rightarrow> expense list \<Rightarrow> bool"
  rule_severity :: level
  rule_category :: string

definition adviceRules :: "adviceRule list" where
  "adviceRules =
     [\<lparr>rule_id = ''on_track'',
       rule_when = (\<lambda>clk profile derived expenses.
          riskLevel derived = Safe \<and> length expenses \<ge> 3),
       rule_severity = Low, rule_category = ''positive''\<rparr>,
      \<lparr>rule_id = ''overspending_early'',
       rule_when = (\<lambda>clk profile derived expenses.
          real_of_int (daysElapsed derived) \<le> real_of_int (monthDays profile) / 2 \<and>
          creditsUsedRatio derived > timeElapsedRatio derived + 0.1),
       rule_severity = High, rule_category = ''spend_control''\<rparr>,
      \<lparr>rule_id = ''exhaustion_warning'',
       rule_when = (\<lambda>clk profile derived expenses.
          (case daysUntilExhaustion derived of
             Infinity \<Rightarrow> False
           | Finite d \<Rightarrow> d < remainingDays derived)),
       rule_severity = High, rule_category = ''prediction''\<rparr>,
      \<lparr>rule_id = ''frequent_chicken'',
       rule_when = (\<lambda>clk profile derived expenses.
          let chickenCount = length (filter (\<lambda>e. itemType e = ''chicken'') expenses)
          in chickenCount \<ge> 5),
       rule_severity = Medium, rule_category = ''category_mix''\<rparr>,
      \<lparr>rule_id = ''dessert_spending'',
       rule_when = (\<lambda>clk profile derived expenses.
          let dessertTotal =
            foldl (\<lambda>s e. s + cost e) 0 (filter (\<lambda>e. itemType e = ''dessert'') expenses)
          in dessertTotal > monthlyCredits profile * 0.1),
       rule_severity = Medium, rule_category = ''luxury''\<rparr>,
      \<lparr>rule_id = ''daily_limit_exceeded'',
       rule_when = (\<lambda>clk profile derived expenses.
          todaySpend derived > dailySafeLimit derived \<and> dailySafeLimit derived > 0),
       rule_severity = High, rule_category = ''daily''\<rparr>,
      \<lparr>rule_id = ''weekend_boost_suggestion'',
       rule_when = (\<lambda>clk profile derived expenses.
          let today = now clk;
              isWeekday = (getDay (tzOffset clk) today \<ge> 1 \<and> getDay (tzOffset clk) today \<le> 5)
          in \<not> weekendBoost (preferences profile) \<and> isWeekday \<and>
             todaySpend derived < dailySafeLimit derived * 0.8),
       rule_severity = Low, rule_category = ''tip''\<rparr>,
      \<lparr>rule_id = ''surplus_projection'',
       rule_when = (\<lambda>clk profile derived expenses.
          surplusOrDeficit derived > monthlyCredits profile * 0.1 \<and> length expenses \<ge> 5),
       rule_severity = Low, rule_category = ''positive''\<rparr>,
      \<lparr>rule_id = ''queue_risk'',
       rule_when = (\<lambda>clk profile derived expenses.
          riskLevel derived = Danger \<and> remainingCredits derived < 500),
       rule_severity = High, rule_category = ''warning''\<rparr>]"

text \<open>\<^verbatim>\<open>severityOrder = { high: 0, medium: 1, low: 2 }\<close>, read at the severity of an item.\<close>

definition severityOrder :: "level \<Rightarrow> int" where
  "severityOrder s = (case s of High \<Rightarrow> 0 | Medium \<Rightarrow> 1 | Low \<Rightarrow> 2)"

text \<open>
  \<^verbatim>\<open>Array.prototype.sort\<close> with the comparator
  \<^verbatim>\<open>severityOrder[a.severity] - severityOrder[b.severity]\<close> is a stable sort by that
  key (the language requires stability since ES2019, and the array has at most nine
  items); \<^const>\<open>sort_key\<close> is the stable insertion sort.
\<close>

definition generateAdvice ::
  "clock \<Rightarrow> profile \<Rightarrow> DerivedMetrics \<Rightarrow> expense list \<Rightarrow> AdviceItem list" where
  "generateAdvice clk profile derived expenses =
     (let triggeredRules =
            map (\<lambda>rule. \<lparr>item_id = rule_id rule, severity = rule_severity rule,
                          category = rule_category rule\<rparr>)
              (filter (\<lambda>rule. rule_when rule clk profile derived expenses) adviceRules);
          triggeredRules = sort_key (\<lambda>a. severityOrder (severity a)) triggeredRules
      in take 5 triggeredRules)"

section \<open>Conditions of the code by name, and the specification's formulas\<close>




text \<open>\<^verbatim>\<open>isWeekend\<close> of \<^verbatim>\<open>calculateDailySafeLimit\<close>: the local day is a Sunday or a
  Saturday.\<close>

definition isWeekend :: "clock \<Rightarrow> bool" where
  "isWeekend clk =
     (getDay (tzOffset clk) (now clk) = 0 \<or> getDay (tzOffset clk) (now clk) = 6)"




text \<open>
  The window aggregator as the specification words it (section 4.1), on calendar
  days: the records whose date lies in the closed interval from
  \<open>max (today - windowDays + 1) periodStart\<close> to \<open>today\<close>, their costs summed and
  divided by the number of days of the interval, at least 1.
\<close>

definition windowBurnRate_spec ::
  "expense list \<Rightarrow> int \<Rightarrow> dateString \<Rightarrow> dateString \<Rightarrow> real" where
  "windowBurnRate_spec records w periodStart day =
     (let lo = max (day - w + 1) periodStart;
          total = sum_list (map cost (filter (\<lambda>r. lo \<le> date r \<and> date r \<le> day) records))
      in total / of_int (max 1 (day - lo + 1)))"

section \<open>Example inputs\<close>

text \<open>The profile of the specification's scenario A, its period starting on
  1970-01-01 (day 0).\<close>

definition scenarioA_profile :: profile where
  "scenarioA_profile =
     \<lparr>userType = ''hostel_student'', monthlyCredits = 6000, monthDays = 30, startDate = 0,
      preferences = defaultPreferences\<rparr>"



text \<open>A lunch of 70 on 1970-01-04 and a dinner of 7000 on 1970-01-10.\<close>

definition lunch70 :: expense where
  "lunch70 = \<lparr>expense_id = ''e1'', date = 3, mealType = ''lunch'', itemType = ''veg'',
              quantity = 1, cost = 70, notes' = None\<rparr>"



definition noon10 :: clock where
  "noon10 = \<lparr>now = 9 * msPerDay + 12 * 60 * 60 * 1000, tzOffset = 0\<rparr>"

section \<open>Helper facts\<close>


lemma foldl_cost: "foldl (\<lambda>sum exp. sum + cost exp) a es = a + sum_list (map cost es)"
  by (induction es arbitrary: a) simp_all



lemma getProperty_medium: "getProperty toleranceFactors ''medium'' = Own 1.0"
  by (simp add: getProperty_def toleranceFactors_def)


lemma getProperty_constructor: "getProperty toleranceFactors ''constructor'' = Inherited"
  by (simp add: getProperty_def toleranceFactors_def objectPrototypeKeys_def)


section \<open>The exhaustion predictor\<close>






section \<open>The risk classifier\<close>





section \<open>The window aggregator\<close>



text \<open>The divisor is at least 1 and, with costs that are not negative, so is the
  result not negative, at every instant.\<close>

lemma calculateBurnRateWindow_nonneg:
  assumes "\<forall>e \<in> set es. 0 \<le> cost e"
  shows "\<exists>r. calculateBurnRateWindow clk es w s = Some r \<and> 0 \<le> r"
proof -
  have "0 \<le> sum_list (map cost (filter P es))" for P
    using assms by (intro sum_list_nonneg) auto
  then show ?thesis
    by (simp add: calculateBurnRateWindow_def Let_def jsdiv_def foldl_cost max_def)
qed

text \<open>When the clock reads exactly midnight UTC of a day, the code computes the
  specification's formula for that day.\<close>

lemma calculateBurnRateWindow_at_midnight:
  assumes "now clk = parseDate day"
  shows "calculateBurnRateWindow clk es w (parseDate periodStart) =
           Some (windowBurnRate_spec es w periodStart day)"
proof -
  let ?lo = "max (day - w + 1) periodStart"
  have ws: "addDays (parseDate day) (- w + 1) = parseDate (day - w + 1)"
    by (simp add: addDays_def parseDate_def algebra_simps)
  have eff: "(if parseDate periodStart < parseDate (day - w + 1) then parseDate (day - w + 1)
              else parseDate periodStart) = parseDate ?lo"
    by (simp add: parseDate_def msPerDay_def max_def)
  have cmp: "(parseDate a \<le> parseDate b) = (a \<le> b)" for a b
    by (simp add: parseDate_def msPerDay_def)
  have dv: "(parseDate day - parseDate ?lo) div msPerDay = day - ?lo"
  proof -
    have "parseDate day - parseDate ?lo = (day - ?lo) * msPerDay"
      by (simp add: parseDate_def algebra_simps)
    then show ?thesis by (simp add: msPerDay_def)
  qed
  have nz: "real_of_int (max 1 (day - ?lo + 1)) \<noteq> 0"
    by (simp add: max_def)
  show ?thesis
    unfolding calculateBurnRateWindow_def windowBurnRate_spec_def Let_def assms
    by (simp only: ws eff cmp dv foldl_cost jsdiv_def nz if_False add_0)
qed

text \<open>
  C8, at an input where the code departs from it. The claim: the costs of the records
  whose date lies in the closed interval from \<open>max (today - windowDays + 1) periodStart\<close>
  to \<open>today\<close> are summed and divided by the number of days of the interval. At noon
  of 1970-01-10, with a window of 7 days and a period that started on 1970-01-01, the
  interval is 1970-01-04 to 1970-01-10 and holds the lunch of 70 of 1970-01-04: the
  claim gives \<open>70 / 7 = 10\<close>. The code gives 0: its \<^verbatim>\<open>windowStart\<close> is noon of
  1970-01-04, later than the midnight the record's date parses to, so the record of
  the window's first day is filtered out, while the divisor still counts that day.
\<close>

theorem calculateBurnRateWindow_first_day_lost:
  "formatDate (tzOffset noon10) (now noon10) = 9 \<and>
   calculateBurnRateWindow noon10 [lunch70] 7 (parseDate 0) = Some 0 \<and>
   windowBurnRate_spec [lunch70] 7 0 9 = 10"
  by (simp add: calculateBurnRateWindow_def windowBurnRate_spec_def noon10_def lunch70_def
      formatDate_def parseDate_def addDays_def msPerDay_def jsdiv_def Let_def)

section \<open>The safe-limit calculator\<close>










text \<open>Any tolerance that is none of the three names and no name inherited from
  \<^verbatim>\<open>Object.prototype\<close> (so \<^verbatim>\<open>'undefined'\<close>, the absent one) gives what medium gives.\<close>

lemma calculateDailySafeLimit_unknown_tolerance:
  assumes "k \<notin> {''low'', ''medium'', ''high''}" and "k \<notin> set objectPrototypeKeys"
  shows "calculateDailySafeLimit clk (p\<lparr>preferences := (preferences p)\<lparr>riskTolerance := k\<rparr>\<rparr>)
           es rc rd ads tbr =
         calculateDailySafeLimit clk
           (p\<lparr>preferences := (preferences p)\<lparr>riskTolerance := ''medium''\<rparr>\<rparr>) es rc rd ads tbr"
proof -
  from assms have "getProperty toleranceFactors k = Undefined"
    by (simp add: getProperty_def toleranceFactors_def)
  then show ?thesis
    by (simp add: calculateDailySafeLimit_def getProperty_medium)
qed

text \<open>
  C9, at an input where the code departs from it. The claim: a \<^verbatim>\<open>riskTolerance\<close>
  outside low, medium and high has the factor 1.0, the result of medium. For
  \<^verbatim>\<open>riskTolerance = 'constructor'\<close> the lookup \<^verbatim>\<open>toleranceFactors['constructor']\<close>
  finds the inherited \<^verbatim>\<open>Object\<close> function, which is truthy, so \<^verbatim>\<open>|| 1.0\<close> does not
  apply and the limit is NaN (\<open>None\<close>), where medium gives 200.
\<close>

theorem calculateDailySafeLimit_constructor:
  "calculateDailySafeLimit \<lparr>now = 0, tzOffset = 0\<rparr>
     (scenarioA_profile\<lparr>preferences := defaultPreferences\<lparr>riskTolerance := ''constructor''\<rparr>\<rparr>)
     [] 6000 30 0 200 = None \<and>
   calculateDailySafeLimit \<lparr>now = 0, tzOffset = 0\<rparr>
     (scenarioA_profile\<lparr>preferences := defaultPreferences\<lparr>riskTolerance := ''medium''\<rparr>\<rparr>)
     [] 6000 30 0 200 = Some 200"
  by (simp add: calculateDailySafeLimit_def jsdiv_def Let_def getProperty_medium
      getProperty_constructor defaultPreferences_def Math_round_def)

section \<open>The metrics engine\<close>









section \<open>The advisory engine\<close>

lemma adviceRules_ids:
  "map rule_id adviceRules =
     [''on_track'', ''overspending_early'', ''exhaustion_warning'', ''frequent_chicken'',
      ''dessert_spending'', ''daily_limit_exceeded'', ''weekend_boost_suggestion'',
      ''surplus_projection'', ''queue_risk'']"
  by (simp add: adviceRules_def)

lemma adviceRules_distinct: "distinct (map rule_id adviceRules)"
  unfolding adviceRules_ids by simp

lemma severityOrder_inj: "severityOrder a = severityOrder b \<longleftrightarrow> a = b"
  by (cases a; cases b) (simp_all add: severityOrder_def)

lemma generateAdvice_ids:
  "map item_id (generateAdvice clk p d es) =
     take 5 (map item_id (sort_key (\<lambda>a. severityOrder (severity a))
       (map (\<lambda>rule. \<lparr>item_id = rule_id rule, severity = rule_severity rule,
                      category = rule_category rule\<rparr>)
          (filter (\<lambda>rule. rule_when rule clk p d es) adviceRules))))"
  by (simp add: generateAdvice_def Let_def take_map)

text \<open>
  C7. For every profile, metrics and expense records, \<^verbatim>\<open>generateAdvice\<close> returns at
  most 5 items, in non-decreasing severity rank (high 0, medium 1, low 2), and the
  sort is stable: for each severity, the items of that severity in the result are, in
  this order, the first of the rules of that severity that fire, in the order of the
  rule table.
\<close>

theorem generateAdvice_sorted_stable:
  "length (generateAdvice clk p d es) \<le> 5 \<and>
   sorted (map (\<lambda>a. severityOrder (severity a)) (generateAdvice clk p d es)) \<and>
   prefix (map item_id (filter (\<lambda>a. severity a = s) (generateAdvice clk p d es)))
          (map rule_id (filter (\<lambda>rule. rule_severity rule = s \<and> rule_when rule clk p d es)
             adviceRules))"
proof -
  let ?mk = "\<lambda>rule. \<lparr>item_id = rule_id rule, severity = rule_severity rule,
                      category = rule_category rule\<rparr>"
  let ?key = "\<lambda>a. severityOrder (severity a)"
  let ?fired = "filter (\<lambda>rule. rule_when rule clk p d es) adviceRules"
  let ?sorted = "sort_key ?key (map ?mk ?fired)"
  have g: "generateAdvice clk p d es = take 5 ?sorted"
    by (simp add: generateAdvice_def Let_def)
  have 1: "length (generateAdvice clk p d es) \<le> 5"
    by (simp add: g)
  have "sorted (map ?key ?sorted)"
    by (rule sorted_sort_key)
  then have "sorted (take 5 (map ?key ?sorted))"
    by (rule sorted_wrt_take)
  then have 2: "sorted (map ?key (generateAdvice clk p d es))"
    by (simp only: g take_map)
  have sev: "(\<lambda>a. severity a = s) = (\<lambda>a. ?key a = severityOrder s)"
    by (simp add: severityOrder_inj)
  have "filter (\<lambda>a. severity a = s) ?sorted = filter (\<lambda>a. severity a = s) (map ?mk ?fired)"
    unfolding sev by (rule sort_key_stable)
  also have "\<dots> = map ?mk (filter (\<lambda>rule. rule_severity rule = s) ?fired)"
    by (simp add: filter_map comp_def)
  finally have st: "map item_id (filter (\<lambda>a. severity a = s) ?sorted) =
      map rule_id
        (filter (\<lambda>rule. rule_severity rule = s \<and> rule_when rule clk p d es) adviceRules)"
    by (simp add: conj_commute)
  have "prefix (take 5 ?sorted) ?sorted"
    by (rule take_is_prefix)
  then have "prefix (filter (\<lambda>a. severity a = s) (take 5 ?sorted))
                    (filter (\<lambda>a. severity a = s) ?sorted)"
    by (rule filter_mono_prefix)
  then have "prefix (map item_id (filter (\<lambda>a. severity a = s) (take 5 ?sorted)))
                    (map item_id (filter (\<lambda>a. severity a = s) ?sorted))"
    by (rule map_mono_prefix)
  then have 3:
    "prefix (map item_id (filter (\<lambda>a. severity a = s) (generateAdvice clk p d es)))
       (map rule_id
         (filter (\<lambda>rule. rule_severity rule = s \<and> rule_when rule clk p d es) adviceRules))"
    by (simp only: g st)
  from 1 2 3 show ?thesis by blast
qed

text \<open>
  C10. The rule table has nine rules with nine different ids, and each contributes at
  most one item to a call of \<^verbatim>\<open>generateAdvice\<close>: the ids of the returned items are
  pairwise distinct and each is the id of a rule of the table.
\<close>

theorem generateAdvice_ids_distinct:
  "distinct (map item_id (generateAdvice clk p d es)) \<and>
   set (map item_id (generateAdvice clk p d es)) \<subseteq> set (map rule_id adviceRules) \<and>
   length adviceRules = 9 \<and> distinct (map rule_id adviceRules)"
proof -
  let ?mk = "\<lambda>rule. \<lparr>item_id = rule_id rule, severity = rule_severity rule,
                      category = rule_category rule\<rparr>"
  let ?fired = "filter (\<lambda>rule. rule_when rule clk p d es) adviceRules"
  let ?sorted = "sort_key (\<lambda>a. severityOrder (severity a)) (map ?mk ?fired)"
  have ids: "map item_id (map ?mk ?fired) = map rule_id ?fired"
    by simp
  have "distinct (map rule_id ?fired)"
    by (rule distinct_map_filter) (rule adviceRules_distinct)
  then have "distinct (map item_id (map ?mk ?fired))"
    by (simp only: ids)
  then have "distinct (map item_id ?sorted)"
    by (simp only: distinct_map set_sort distinct_sort)
  then have 1: "distinct (map item_id (generateAdvice clk p d es))"
    by (simp only: generateAdvice_ids distinct_take)
  have "set (map item_id ?sorted) = set (map rule_id ?fired)"
    by (simp only: set_map set_sort flip: ids)
  also have "\<dots> \<subseteq> set (map rule_id adviceRules)"
    by auto
  finally have "set (map item_id ?sorted) \<subseteq> set (map rule_id adviceRules)" .
  then have 2:
    "set (map item_id (generateAdvice clk p d es)) \<subseteq> set (map rule_id adviceRules)"
    unfolding generateAdvice_ids using set_take_subset by fast
  have 3: "length adviceRules = 9"
    by (simp add: adviceRules_def)
  from 1 2 3 adviceRules_distinct show ?thesis by blast
qed

end
